theory Spec2Isabelle
  imports Complex_Main "HOL-Library.Word" "HOL-Library.Sublist"
begin

unbundle bit_operations_syntax

section \<open>Python values and builtins used by \<open>src/app/server.py\<close>\<close>

text \<open>
  Exceptions are values. \<open>OperandError\<close> stands for the exception Python raises when an
  operator, method or builtin meets a value of a type it does not support (TypeError, or
  AttributeError for a missing \<open>.get\<close>; for \<open>str % int\<close> also the ValueError of a broken
  format string). \<open>ValueError\<close> is raised by \<open>bytes()\<close> on an element outside
  \<open>range(256)\<close> and by \<open>math.acos\<close>/\<open>int()\<close> on a bad float. \<open>Base64Error\<close> is what
  \<open>base64.b64decode\<close> raises on a string it cannot decode.
\<close>

datatype error = IndexError | KeyError | OperandError | ValueError | Base64Error

text \<open>
  The values \<open>json.loads\<close> returns. A Python \<open>dict\<close> is an association list in insertion
  order (keys distinct); a \<open>float\<close> is modelled by its exact rational value, so the
  rounding of IEEE arithmetic and the values \<open>nan\<close> and \<open>inf\<close> are left out.
\<close>

datatype json =
    JNull
  | JBool bool
  | JInt int
  | JFloat rat
  | JStr string
  | JArr "json list"
  | JObj "(string \<times> json) list"

type_synonym byte = "8 word"

text \<open>\<open>data[i]\<close> on a \<open>bytes\<close> object, for an index \<open>i \<ge> 0\<close>.\<close>

definition byte_at :: "byte list \<Rightarrow> nat \<Rightarrow> error + int" where
  "byte_at data i = (if i < length data then Inr (uint (data ! i)) else Inl IndexError)"

text \<open>The numeric value of an \<open>int\<close>, \<open>float\<close> or \<open>bool\<close> (\<open>True\<close> is 1).\<close>

fun num_of :: "json \<Rightarrow> rat option" where
  "num_of (JInt n) = Some (of_int n)"
| "num_of (JFloat x) = Some x"
| "num_of (JBool b) = Some (if b then 1 else 0)"
| "num_of _ = None"

text \<open>\<open>j == n\<close> and \<open>j != n\<close> never raise: a value that is not a number differs from \<open>n\<close>.\<close>

definition py_eq_int :: "json \<Rightarrow> int \<Rightarrow> bool" where
  "py_eq_int j n = (num_of j = Some (of_int n))"

text \<open>\<open>j + 1\<close>, for the numbers that pass the port test.\<close>

fun py_add1 :: "json \<Rightarrow> error + json" where
  "py_add1 (JInt n) = Inr (JInt (n + 1))"
| "py_add1 (JBool b) = Inr (JInt ((if b then 1 else 0) + 1))"
| "py_add1 (JFloat x) = Inr (JFloat (x + 1))"
| "py_add1 _ = Inl OperandError"

text \<open>\<open>d[k]\<close>: KeyError on a dict without the key, TypeError on anything but a dict.\<close>

fun py_item :: "json \<Rightarrow> string \<Rightarrow> error + json" where
  "py_item (JObj kv) k = (case map_of kv k of None \<Rightarrow> Inl KeyError | Some v \<Rightarrow> Inr v)"
| "py_item _ k = Inl OperandError"

text \<open>\<open>d.get(k, dflt)\<close>: only a dict has the method.\<close>

fun py_get :: "json \<Rightarrow> string \<Rightarrow> json \<Rightarrow> error + json" where
  "py_get (JObj kv) k dflt = Inr (case map_of kv k of None \<Rightarrow> dflt | Some v \<Rightarrow> v)"
| "py_get _ k dflt = Inl OperandError"

text \<open>
  \<open>k in x\<close> for a string \<open>k\<close>: key membership in a dict, element membership in a list,
  substring test in a string, TypeError elsewhere.
\<close>

fun py_in :: "string \<Rightarrow> json \<Rightarrow> error + bool" where
  "py_in k (JObj kv) = Inr (map_of kv k \<noteq> None)"
| "py_in k (JArr xs) = Inr (JStr k \<in> set xs)"
| "py_in k (JStr s) = Inr (sublist k s)"
| "py_in k _ = Inl OperandError"

text \<open>
  The elements \<open>for g in x\<close> visits, which are as many as \<open>len(x)\<close> counts: the items of
  a list, the characters of a string, the keys of a dict; TypeError elsewhere.
\<close>

fun py_iter :: "json \<Rightarrow> error + json list" where
  "py_iter (JArr xs) = Inr xs"
| "py_iter (JStr s) = Inr (map (\<lambda>c. JStr [c]) s)"
| "py_iter (JObj kv) = Inr (map (\<lambda>p. JStr (fst p)) kv)"
| "py_iter _ = Inl OperandError"

text \<open>\<open>int(x)\<close> on a number truncates towards zero.\<close>

definition py_int :: "rat \<Rightarrow> int" where
  "py_int x = (if 0 \<le> x then \<lfloor>x\<rfloor> else \<lceil>x\<rceil>)"

text \<open>\<open>round(x)\<close> of Python 3: the nearest integer, a tie going to the even one.\<close>

definition py_round :: "rat \<Rightarrow> int" where
  "py_round x =
     (let f = \<lfloor>x\<rfloor>; r = x - of_int f
      in if r < 1 / 2 then f
         else if 1 / 2 < r then f + 1
         else if even f then f else f + 1)"

text \<open>\<open>min(a, v)\<close> and \<open>max(a, v)\<close> with a number \<open>a\<close>: comparing raises on a non-number.\<close>

definition py_min :: "rat \<Rightarrow> json \<Rightarrow> error + rat" where
  "py_min a v = (case num_of v of None \<Rightarrow> Inl OperandError | Some b \<Rightarrow> Inr (min a b))"

definition py_max :: "rat \<Rightarrow> json \<Rightarrow> error + rat" where
  "py_max a v = (case num_of v of None \<Rightarrow> Inl OperandError | Some b \<Rightarrow> Inr (max a b))"

text \<open>\<open>x % 256\<close> as far as \<open>bytes()\<close> later accepts the result: an \<open>int\<close> or a \<open>bool\<close>.\<close>

fun py_mod256 :: "json \<Rightarrow> error + int" where
  "py_mod256 (JInt n) = Inr (n mod 256)"
| "py_mod256 (JBool b) = Inr (if b then 1 else 0)"
| "py_mod256 _ = Inl OperandError"

text \<open>\<open>bytes(xs)\<close> on a list of ints.\<close>

definition py_bytes :: "int list \<Rightarrow> error + byte list" where
  "py_bytes xs =
     (if list_all (\<lambda>x. 0 \<le> x \<and> x < 256) xs then Inr (map word_of_int xs) else Inl ValueError)"

text \<open>
  \<open>s.replace(old, new)\<close> for a non-empty \<open>old\<close> (both call sites pass a literal): every
  occurrence, scanning from the left, occurrences not overlapping.
\<close>

function py_replace :: "string \<Rightarrow> string \<Rightarrow> string \<Rightarrow> string" where
  "py_replace old new [] = []"
| "py_replace old new (c # cs) =
     (if prefix old (c # cs) then new @ py_replace old new (drop (length old - 1) cs)
      else c # py_replace old new cs)"
  by pat_completeness auto
termination
  by (relation "measure (\<lambda>(old, new, s). length s)") auto

section \<open>\<open>process\<close>: decoding the payload\<close>

definition constrain :: "int \<Rightarrow> int \<Rightarrow> int \<Rightarrow> int" where
  "constrain v lower upper = min upper (max lower v)"

definition MAX_DISTANCE :: int where "MAX_DISTANCE = 1000000"
definition MIN_DISTANCE :: int where "MIN_DISTANCE = 0"
definition MAX_RSSI :: int where "MAX_RSSI = 200"
definition MIN_RSSI :: int where "MIN_RSSI = - 200"

text \<open>
  The keys \<open>process\<close> writes into \<open>output\<close> from the payload (lines 159 to 172). The four
  optional ones exist only with a fix.
\<close>

record gps =
  hdop :: rat
  sats :: int
  has_gps :: bool
  latitude :: "rat option"
  longitude :: "rat option"
  altitude :: "int option"
  accuracy :: "rat option"

definition lonSign :: "int \<Rightarrow> int" where
  "lonSign b0 = (if (drop_bit 7 b0) AND 1 \<noteq> 0 then - 1 else 1)"

definition latSign :: "int \<Rightarrow> int" where
  "latSign b0 = (if (drop_bit 6 b0) AND 1 \<noteq> 0 then - 1 else 1)"

definition encLat :: "int \<Rightarrow> int \<Rightarrow> int \<Rightarrow> int \<Rightarrow> int" where
  "encLat b0 b1 b2 b3 = push_bit 17 (b0 AND 63) + push_bit 9 b1 + push_bit 1 b2 + drop_bit 7 b3"

definition encLon :: "int \<Rightarrow> int \<Rightarrow> int \<Rightarrow> int" where
  "encLon b3 b4 b5 = push_bit 16 (b3 AND 127) + push_bit 8 b4 + b5"

text \<open>
  \<open>data[8]\<close> and \<open>data[9]\<close> are read first and raise IndexError on a short payload; once
  they are there, the indices 0 to 7 are in range.
\<close>

definition decode :: "byte list \<Rightarrow> error + gps" where
  "decode data =
     (case byte_at data 8 of
        Inl e \<Rightarrow> Inl e
      | Inr b8 \<Rightarrow>
         (case byte_at data 9 of
            Inl e \<Rightarrow> Inl e
          | Inr b9 \<Rightarrow>
             (let h = of_int b8 / 10;
                  b = (\<lambda>i. uint (data ! i))
              in if h \<le> 2 \<and> b9 \<ge> 5 then
                   Inr \<lparr>hdop = h, sats = b9, has_gps = True,
                     latitude = Some (of_int (latSign (b 0) *
                       (encLat (b 0) (b 1) (b 2) (b 3) * 108 + 53)) / 10000000),
                     longitude = Some (of_int (lonSign (b 0) *
                       (encLon (b 3) (b 4) (b 5) * 215 + 107)) / 10000000),
                     altitude = Some ((push_bit 8 (b 6) + b 7) - 1000),
                     accuracy = Some ((h * 5 + 5) / 10)\<rparr>
                 else
                   Inr \<lparr>hdop = h, sats = b9, has_gps = False,
                     latitude = None, longitude = None, altitude = None,
                     accuracy = None\<rparr>)))"

section \<open>\<open>process\<close>: the gateways\<close>

text \<open>
  The keys of \<open>output\<close> written from the gateway list (lines 175 to 192), beside the
  decoded fix. \<open>min_distance\<close> starts as the float \<open>1e6\<close> or the int 0 and is otherwise
  an \<open>int(...)\<close>, so it is always integral; a signal strength is whatever number the
  envelope carries.
\<close>

record aggregate =
  gpsfix :: gps
  num_gateways :: int
  min_distance :: int
  max_distance :: int
  min_rssi :: rat
  max_rssi :: rat

text \<open>
  \<open>int(circleDistance(output, loc))\<close> is floating-point trigonometry and is taken as a
  parameter: from the device's latitude and longitude and the gateway's, the metres, or
  \<open>None\<close> where \<open>math.acos\<close> or \<open>int\<close> raises ValueError.
\<close>

type_synonym circle = "rat \<Rightarrow> rat \<Rightarrow> rat \<Rightarrow> rat \<Rightarrow> int option"

definition int_circleDistance :: "circle \<Rightarrow> gps \<Rightarrow> json \<Rightarrow> json \<Rightarrow> error + int" where
  "int_circleDistance C g lat lon =
     (case (latitude g, num_of lat, longitude g, num_of lon) of
        (Some la1, Some la2, Some lo1, Some lo2) \<Rightarrow>
          (case C la1 lo1 la2 lo2 of None \<Rightarrow> Inl ValueError | Some d \<Rightarrow> Inr d)
      | _ \<Rightarrow> Inl OperandError)"

text \<open>One pass of the loop body over a gateway (lines 182 to 192).\<close>

definition gateway_step :: "circle \<Rightarrow> aggregate \<Rightarrow> json \<Rightarrow> error + aggregate" where
  "gateway_step C a gateway =
     (case py_get gateway ''rssi'' (JInt MAX_RSSI) of
        Inl e \<Rightarrow> Inl e
      | Inr r1 \<Rightarrow>
     (case py_min (min_rssi a) r1 of
        Inl e \<Rightarrow> Inl e
      | Inr lo \<Rightarrow>
     (case py_get gateway ''rssi'' (JInt MIN_RSSI) of
        Inl e \<Rightarrow> Inl e
      | Inr r2 \<Rightarrow>
     (case py_max (max_rssi a) r2 of
        Inl e \<Rightarrow> Inl e
      | Inr hi \<Rightarrow>
     (let a1 = a\<lparr>min_rssi := lo, max_rssi := hi\<rparr>
      in if has_gps (gpsfix a) then
          (case py_get gateway ''location'' (JObj []) of
             Inl e \<Rightarrow> Inl e
           | Inr loc \<Rightarrow>
          (case py_get loc ''latitude'' JNull of
             Inl e \<Rightarrow> Inl e
           | Inr lat \<Rightarrow>
          (case py_get loc ''longitude'' JNull of
             Inl e \<Rightarrow> Inl e
           | Inr lon \<Rightarrow>
             if lat \<noteq> JNull \<and> lon \<noteq> JNull then
               (case int_circleDistance C (gpsfix a) lat lon of
                  Inl e \<Rightarrow> Inl e
                | Inr distance \<Rightarrow>
                    Inr (a1\<lparr>min_distance := min (min_distance a) distance,
                            max_distance := max (max_distance a) distance\<rparr>))
             else Inr a1)))
         else Inr a1)))))"

fun gateway_loop :: "circle \<Rightarrow> aggregate \<Rightarrow> json list \<Rightarrow> error + aggregate" where
  "gateway_loop C a [] = Inr a"
| "gateway_loop C a (g # gs) =
     (case gateway_step C a g of Inl e \<Rightarrow> Inl e | Inr a' \<Rightarrow> gateway_loop C a' gs)"

definition aggregate_init :: "gps \<Rightarrow> int \<Rightarrow> aggregate" where
  "aggregate_init g n =
     \<lparr>gpsfix = g, num_gateways = n,
      min_distance = (if has_gps g then MAX_DISTANCE else MIN_DISTANCE),
      max_distance = MIN_DISTANCE,
      min_rssi = of_int MAX_RSSI, max_rssi = of_int MIN_RSSI\<rparr>"

definition aggregate_gateways :: "circle \<Rightarrow> gps \<Rightarrow> json \<Rightarrow> error + aggregate" where
  "aggregate_gateways C g gateways =
     (case py_iter gateways of
        Inl e \<Rightarrow> Inl e
      | Inr gs \<Rightarrow> gateway_loop C (aggregate_init g (int (length gs))) gs)"

section \<open>\<open>process\<close>: the response buffer\<close>

text \<open>
  Lines 209 to 231. The distances are rounded by \<open>round\<close> after a float division; the
  quotient of an integer by 250 or 10 is either exactly a half-integer or some way off
  one, so the float rounds as the exact quotient does.
\<close>

definition distance_byte :: "aggregate \<Rightarrow> int \<Rightarrow> int" where
  "distance_byte a d =
     (if has_gps (gpsfix a) then constrain (py_round (of_int d / 250)) 1 128 else 0)"

definition distance_word :: "aggregate \<Rightarrow> int \<Rightarrow> int" where
  "distance_word a d =
     (if has_gps (gpsfix a) then constrain (py_round (of_int d / 10)) 1 65535 else 0)"

definition buffer1 :: "aggregate \<Rightarrow> int \<Rightarrow> int list" where
  "buffer1 a s =
     [s,
      py_int (min_rssi a + 200) mod 256,
      py_int (max_rssi a + 200) mod 256,
      distance_byte a (min_distance a),
      distance_byte a (max_distance a),
      num_gateways a mod 256]"

definition buffer11 :: "aggregate \<Rightarrow> int \<Rightarrow> int list" where
  "buffer11 a s =
     (let mn = distance_word a (min_distance a);
          mx = distance_word a (max_distance a)
      in [s,
          py_int (min_rssi a + 200) mod 256,
          py_int (max_rssi a + 200) mod 256,
          py_int (of_int mn / 256) mod 256, mn mod 256,
          py_int (of_int mx / 256) mod 256, mx mod 256,
          num_gateways a mod 256])"

text \<open>
  The buffer for a port and a sequence number as the envelope carries them; no
  \<open>buffer\<close> key on another port. A float sequence number passes \<open>% 256\<close> and fails in the
  caller's \<open>bytes()\<close>; the model raises here, where nothing observable lies between.
\<close>

definition encode :: "aggregate \<Rightarrow> json \<Rightarrow> json \<Rightarrow> error + int list option" where
  "encode a port sequence_id =
     (if py_eq_int port 1 then
        (case py_mod256 sequence_id of
           Inl e \<Rightarrow> Inl e
         | Inr s \<Rightarrow> Inr (Some (buffer1 a s)))
      else if py_eq_int port 11 then
        (case py_mod256 sequence_id of
           Inl e \<Rightarrow> Inl e
         | Inr s \<Rightarrow> Inr (Some (buffer11 a s)))
      else Inr None)"

text \<open>
  \<open>process\<close> with publishing switched off (the telemetry side channel is not part of the
  pipeline). It returns \<open>output\<close>: the aggregate with the decoded fix, and the buffer.
\<close>

definition process :: "circle \<Rightarrow> byte list \<Rightarrow> json \<Rightarrow> json \<Rightarrow> json \<Rightarrow> error + aggregate \<times> int list option" where
  "process C data port sequence_id gateways =
     (case decode data of
        Inl e \<Rightarrow> Inl e
      | Inr g \<Rightarrow>
         (case aggregate_gateways C g gateways of
            Inl e \<Rightarrow> Inl e
          | Inr a \<Rightarrow>
             (case encode a port sequence_id of
                Inl e \<Rightarrow> Inl e
              | Inr buf \<Rightarrow> Inr (a, buf))))"

section \<open>The envelope parsers\<close>

text \<open>
  The library functions the parsers call, as parameters: \<open>json.loads\<close> (\<open>None\<close> where
  it raises), \<open>base64.b64decode\<close> on a string (\<open>None\<close> where it raises),
  \<open>base64.b64encode(...).decode('utf-8')\<close>, \<open>json.dumps\<close>, and the distance above.
\<close>

record env =
  loads :: "string \<Rightarrow> json option"
  b64decode :: "string \<Rightarrow> byte list option"
  b64encode :: "byte list \<Rightarrow> string"
  dumps :: "json \<Rightarrow> string"
  circleDistance :: circle

text \<open>\<open>base64.b64decode(v)\<close> for a value of the envelope: TypeError unless it is a string.\<close>

fun py_b64decode :: "env \<Rightarrow> json \<Rightarrow> error + byte list" where
  "py_b64decode E (JStr s) =
     (case b64decode E s of None \<Rightarrow> Inl Base64Error | Some bs \<Rightarrow> Inr bs)"
| "py_b64decode E _ = Inl OperandError"

text \<open>
  A parser returns \<open>[topic, body]\<close>, or \<open>[False, False]\<close> for no downlink (\<open>None\<close> here),
  or raises. \<open>process\<close> returns a non-empty dict, so the test \<open>if not data\<close> after the
  call never fires and has no branch in the model.
\<close>

type_synonym downlink = "(string \<times> string) option"

text \<open>Lines 265 to 278: the topic and the body, once \<open>process\<close> has returned.\<close>

definition build_tts3 :: "env \<Rightarrow> string \<Rightarrow> json \<Rightarrow> int list option \<Rightarrow> error + downlink" where
  "build_tts3 E topic port buf =
     (case py_add1 port of
        Inl e \<Rightarrow> Inl e
      | Inr p1 \<Rightarrow>
         (case buf of
            None \<Rightarrow> Inl KeyError
          | Some xs \<Rightarrow>
             (case py_bytes xs of
                Inl e \<Rightarrow> Inl e
              | Inr bs \<Rightarrow>
                  Inr (Some (py_replace ''/up'' ''/down/replace'' topic,
                    dumps E (JObj [(''downlinks'', JArr [JObj
                      [(''f_port'', p1),
                       (''frm_payload'', JStr (b64encode E bs)),
                       (''priority'', JStr ''HIGH'')]])]))))))"

definition parser_tts3 :: "env \<Rightarrow> string \<Rightarrow> string \<Rightarrow> error + downlink" where
  "parser_tts3 E topic payload =
     (case loads E payload of
        None \<Rightarrow> Inr None
      | Some p \<Rightarrow>
     (case py_in ''uplink_message'' p of
        Inl e \<Rightarrow> Inl e
      | Inr False \<Rightarrow> Inr None
      | Inr True \<Rightarrow>
     (case py_item p ''uplink_message'' of
        Inl e \<Rightarrow> Inl e
      | Inr um \<Rightarrow>
     (case py_item um ''f_port'' of
        Inl e \<Rightarrow> Inl e
      | Inr port \<Rightarrow>
          if \<not> py_eq_int port 1 \<and> \<not> py_eq_int port 11 then Inr None
          else
     (case py_item um ''f_cnt'' of
        Inl e \<Rightarrow> Inl e
      | Inr sequence_id \<Rightarrow>
     (case py_item um ''rx_metadata'' of
        Inl e \<Rightarrow> Inl e
      | Inr gateways \<Rightarrow>
     (case py_item um ''frm_payload'' of
        Inl e \<Rightarrow> Inl e
      | Inr frm \<Rightarrow>
     (case py_b64decode E frm of
        Inl e \<Rightarrow> Inl e
      | Inr data \<Rightarrow>
     (case process (circleDistance E) data port sequence_id gateways of
        Inl e \<Rightarrow> Inl e
      | Inr out \<Rightarrow> build_tts3 E topic port (snd out))))))))))"

text \<open>Lines 310 to 323; \<open>devEui\<close> is added for a version 4 envelope.\<close>

definition build_cs34 :: "env \<Rightarrow> string \<Rightarrow> json \<Rightarrow> bool \<Rightarrow> json \<Rightarrow> int list option \<Rightarrow> error + downlink" where
  "build_cs34 E topic p v4 port buf =
     (case py_add1 port of
        Inl e \<Rightarrow> Inl e
      | Inr p1 \<Rightarrow>
         (case buf of
            None \<Rightarrow> Inl KeyError
          | Some xs \<Rightarrow>
             (case py_bytes xs of
                Inl e \<Rightarrow> Inl e
              | Inr bs \<Rightarrow>
                 (let topic' = py_replace ''/event/up'' ''/command/down'' topic;
                      fields = [(''confirmed'', JBool False), (''fPort'', p1),
                                (''data'', JStr (b64encode E bs))]
                  in if v4 then
                       (case py_item p ''deviceInfo'' of
                          Inl e \<Rightarrow> Inl e
                        | Inr info \<Rightarrow>
                           (case py_item info ''devEui'' of
                              Inl e \<Rightarrow> Inl e
                            | Inr eui \<Rightarrow>
                                Inr (Some (topic',
                                  dumps E (JObj (fields @ [(''devEui'', eui)]))))))
                     else Inr (Some (topic', dumps E (JObj fields)))))))"

definition parser_cs34 :: "env \<Rightarrow> string \<Rightarrow> string \<Rightarrow> error + downlink" where
  "parser_cs34 E topic payload =
     (case loads E payload of
        None \<Rightarrow> Inr None
      | Some p \<Rightarrow>
     (case py_in ''deviceInfo'' p of
        Inl e \<Rightarrow> Inl e
      | Inr v4 \<Rightarrow>
     (case py_get p ''fPort'' (JInt 0) of
        Inl e \<Rightarrow> Inl e
      | Inr port \<Rightarrow>
          if \<not> py_eq_int port 1 \<and> \<not> py_eq_int port 11 then Inr None
          else
     (case py_item p ''fCnt'' of
        Inl e \<Rightarrow> Inl e
      | Inr sequence_id \<Rightarrow>
     (case py_item p ''rxInfo'' of
        Inl e \<Rightarrow> Inl e
      | Inr gateways \<Rightarrow>
     (case py_item p ''data'' of
        Inl e \<Rightarrow> Inl e
      | Inr frm \<Rightarrow>
     (case py_b64decode E frm of
        Inl e \<Rightarrow> Inl e
      | Inr data \<Rightarrow>
     (case process (circleDistance E) data port sequence_id gateways of
        Inl e \<Rightarrow> Inl e
      | Inr out \<Rightarrow> build_cs34 E topic p v4 port (snd out)))))))))"

section \<open>Reference values for the examples\<close>

text \<open>
  The rounding the specification names for the encoder: a tie goes away from zero.
\<close>

definition round_half_away :: "rat \<Rightarrow> int" where
  "round_half_away x = (if 0 \<le> x then \<lfloor>x + 1 / 2\<rfloor> else \<lceil>x - 1 / 2\<rceil>)"

definition example_fix :: gps where
  "example_fix = \<lparr>hdop = 1, sats = 6, has_gps = True, latitude = Some 0, longitude = Some 0,
     altitude = Some 0, accuracy = Some 1\<rparr>"

definition example_aggregate :: aggregate where
  "example_aggregate = \<lparr>gpsfix = example_fix, num_gateways = 1, min_distance = 12345,
     max_distance = 12345, min_rssi = - 80, max_rssi = - 80\<rparr>"

text \<open>A payload with a fix: south of the equator, HDOP 2.0, five satellites.\<close>

definition example_payload :: "byte list" where
  "example_payload = [0x41, 2, 3, 0x84, 5, 6, 7, 8, 20, 5]"

definition example_decoded :: gps where
  "example_decoded = \<lparr>hdop = 2, sats = 5, has_gps = True,
     latitude = Some (- (14267177 / 10000000)), longitude = Some (56637557 / 10000000),
     altitude = Some 800, accuracy = Some (3 / 2)\<rparr>"

text \<open>
  Envelopes for the examples, as the broker delivers them, with what \<open>json.loads\<close>,
  \<open>base64.b64decode\<close>, \<open>base64.b64encode\<close> and \<open>json.dumps\<close> return on them. The tables
  hold only the arguments the examples use: a body outside \<open>example_loads\<close> counts as
  invalid JSON, and no example gateway carries a location, so the distance is never asked.
\<close>

definition body_tts3_short :: string where
  \<open>body_tts3_short = ''{"uplink_message": {"f_port": 1, "f_cnt": 7, "rx_metadata": [], "frm_payload": "AAAA"}}''\<close>

definition body_cs34_short :: string where
  \<open>body_cs34_short = ''{"fPort": 1, "fCnt": 7, "rxInfo": [], "data": "AAAA"}''\<close>

definition body_tts3_ok :: string where
  \<open>body_tts3_ok = ''{"uplink_message": {"f_port": 1, "f_cnt": 7, "rx_metadata": [], "frm_payload": "AAAAAAAAAAAAAA=="}}''\<close>

definition body_cs34_ok :: string where
  \<open>body_cs34_ok = ''{"fPort": 1, "fCnt": 7, "rxInfo": [], "data": "AAAAAAAAAAAAAA=="}''\<close>

definition body_tts3_empty :: string where
  \<open>body_tts3_empty = ''{"uplink_message": {}}''\<close>

definition body_tts3_port5 :: string where
  \<open>body_tts3_port5 = ''{"uplink_message": {"f_port": 5}}''\<close>

definition body_cs34_port5 :: string where
  \<open>body_cs34_port5 = ''{"fPort": 5}''\<close>

definition body_cs34_port1 :: string where
  \<open>body_cs34_port1 = ''{"fPort": 1}''\<close>

definition uplink_fields :: "string \<Rightarrow> string \<Rightarrow> string \<Rightarrow> string \<Rightarrow> string \<Rightarrow> (string \<times> json) list" where
  "uplink_fields port cnt rx frm s = [(port, JInt 1), (cnt, JInt 7), (rx, JArr []), (frm, JStr s)]"

definition example_loads :: "string \<Rightarrow> json option" where
  "example_loads = map_of
     [(''5'', JInt 5),
      (''{}'', JObj []),
      (body_tts3_empty, JObj [(''uplink_message'', JObj [])]),
      (body_tts3_port5, JObj [(''uplink_message'', JObj [(''f_port'', JInt 5)])]),
      (body_cs34_port5, JObj [(''fPort'', JInt 5)]),
      (body_cs34_port1, JObj [(''fPort'', JInt 1)]),
      (body_tts3_short, JObj [(''uplink_message'',
         JObj (uplink_fields ''f_port'' ''f_cnt'' ''rx_metadata'' ''frm_payload'' ''AAAA''))]),
      (body_cs34_short, JObj (uplink_fields ''fPort'' ''fCnt'' ''rxInfo'' ''data'' ''AAAA'')),
      (body_tts3_ok, JObj [(''uplink_message'',
         JObj (uplink_fields ''f_port'' ''f_cnt'' ''rx_metadata'' ''frm_payload''
           ''AAAAAAAAAAAAAA==''))]),
      (body_cs34_ok,
         JObj (uplink_fields ''fPort'' ''fCnt'' ''rxInfo'' ''data'' ''AAAAAAAAAAAAAA==''))]"

definition example_b64decode :: "string \<Rightarrow> byte list option" where
  "example_b64decode = map_of
     [(''AAAA'', [0, 0, 0]), (''AAAAAAAAAAAAAA=='', [0, 0, 0, 0, 0, 0, 0, 0, 0, 0])]"

definition example_b64encode :: "byte list \<Rightarrow> string" where
  "example_b64encode bs = (if bs = [7, 144, 0, 0, 0, 0] then ''B5AAAAAA'' else [])"

definition downlink_tts3_text :: string where
  \<open>downlink_tts3_text = ''{"downlinks": [{"f_port": 2, "frm_payload": "B5AAAAAA", "priority": "HIGH"}]}''\<close>

definition downlink_cs34_text :: string where
  \<open>downlink_cs34_text = ''{"confirmed": false, "fPort": 2, "data": "B5AAAAAA"}''\<close>

definition example_dumps :: "json \<Rightarrow> string" where
  "example_dumps j =
     (if j = JObj [(''downlinks'', JArr [JObj [(''f_port'', JInt 2),
            (''frm_payload'', JStr ''B5AAAAAA''), (''priority'', JStr ''HIGH'')]])]
      then downlink_tts3_text
      else if j = JObj [(''confirmed'', JBool False), (''fPort'', JInt 2),
            (''data'', JStr ''B5AAAAAA'')]
      then downlink_cs34_text
      else [])"

definition example_env :: env where
  "example_env = \<lparr>loads = example_loads, b64decode = example_b64decode,
     b64encode = example_b64encode, dumps = example_dumps,
     circleDistance = (\<lambda>la1 lo1 la2 lo2. None)\<rparr>"

section \<open>The decoder\<close>

lemma hdop_le: "(rat_of_int b / 10 \<le> 2) = (b \<le> 20)"
proof -
  have "(rat_of_int b / 10 \<le> 2) = (rat_of_int b \<le> rat_of_int 20)" by simp
  also have "\<dots> = (b \<le> 20)" by (simp only: of_int_le_iff)
  finally show ?thesis .
qed

lemma decode_10:
  assumes "length data = 10"
  shows "byte_at data 8 = Inr (uint (data ! 8))" "byte_at data 9 = Inr (uint (data ! 9))"
  using assms by (simp_all add: byte_at_def)

lemma decode_some:
  assumes "byte_at data 8 = Inr b8" "byte_at data 9 = Inr b9"
  shows "\<exists>g. decode data = Inr g \<and> hdop g = of_int b8 / 10 \<and> sats g = b9
     \<and> has_gps g = (hdop g \<le> 2 \<and> sats g \<ge> 5)
     \<and> has_gps g = (b8 \<le> 20 \<and> 5 \<le> b9)"
  unfolding decode_def assms Let_def
  by (simp only: sum.case hdop_le split: if_split) simp

text \<open>
  Claim C6. For every 10-byte payload the decoder sets \<open>hdop = byte[8] / 10\<close> and
  \<open>sats = byte[9]\<close>, and \<open>has_gps\<close> holds exactly when \<open>hdop \<le> 2\<close> and \<open>sats \<ge> 5\<close>;
  on the bytes themselves that is \<open>byte[8] \<le> 20\<close> and \<open>byte[9] \<ge> 5\<close>.
\<close>

theorem decode_hdop_sats_fix:
  assumes "length data = 10"
  shows "\<exists>g. decode data = Inr g \<and> hdop g = of_int (uint (data ! 8)) / 10 \<and> sats g = uint (data ! 9)
     \<and> has_gps g = (hdop g \<le> 2 \<and> sats g \<ge> 5)
     \<and> has_gps g = (uint (data ! 8) \<le> 20 \<and> 5 \<le> uint (data ! 9))"
  by (rule decode_some [OF decode_10 [OF assms]])

theorem decode_hdop_sats_fix_witness:
  "length example_payload = 10
   \<and> (\<exists>g. decode example_payload = Inr g \<and> hdop g = 2 \<and> sats g = 5 \<and> has_gps g)"
  using decode_hdop_sats_fix [of example_payload] by (auto simp add: example_payload_def)

lemma and63: "(x::int) AND 63 = x mod 64"
proof -
  have "mask 6 = (63::int)" by (simp add: mask_eq_exp_minus_1)
  then have "x AND 63 = take_bit 6 x" by (simp add: take_bit_eq_mask)
  then show ?thesis by (simp add: take_bit_eq_mod)
qed

lemma and127: "(x::int) AND 127 = x mod 128"
proof -
  have "mask 7 = (127::int)" by (simp add: mask_eq_exp_minus_1)
  then have "x AND 127 = take_bit 7 x" by (simp add: take_bit_eq_mask)
  then show ?thesis by (simp add: take_bit_eq_mod)
qed

lemma sign_bit: "(drop_bit n (uint (w::byte)) AND 1 \<noteq> 0) = (n < 8 \<and> bit w n)"
proof -
  have "(drop_bit n (uint w) AND 1 \<noteq> 0) = odd (drop_bit n (uint w))"
    by (simp add: and_one_eq odd_iff_mod_2_eq_one)
  also have "\<dots> = bit (uint w) n" by (simp add: bit_iff_odd_drop_bit)
  also have "\<dots> = (n < 8 \<and> bit w n)" by (simp add: bit_uint_iff)
  finally show ?thesis .
qed

lemma lonSign_bit: "lonSign (uint (w::byte)) = (if bit w 7 then - 1 else 1)"
  unfolding lonSign_def sign_bit by simp
lemma latSign_bit: "latSign (uint (w::byte)) = (if bit w 6 then - 1 else 1)"
  unfolding latSign_def sign_bit by simp

lemma encLat_arith: "encLat b0 b1 b2 b3 = (b0 mod 64) * 2 ^ 17 + b1 * 2 ^ 9 + b2 * 2 + b3 div 128"
  by (simp add: encLat_def and63 push_bit_eq_mult drop_bit_eq_div)
lemma encLon_arith: "encLon b3 b4 b5 = (b3 mod 128) * 2 ^ 16 + b4 * 2 ^ 8 + b5"
  by (simp add: encLon_def and127 push_bit_eq_mult)


lemma decode_fix:
  assumes "length data = 10" "decode data = Inr g" "has_gps g"
  shows "g = \<lparr>hdop = of_int (uint (data ! 8)) / 10, sats = uint (data ! 9), has_gps = True,
     latitude = Some (of_int (latSign (uint (data ! 0)) *
        (encLat (uint (data ! 0)) (uint (data ! 1)) (uint (data ! 2)) (uint (data ! 3)) * 108 + 53)) / 10000000),
     longitude = Some (of_int (lonSign (uint (data ! 0)) *
        (encLon (uint (data ! 3)) (uint (data ! 4)) (uint (data ! 5)) * 215 + 107)) / 10000000),
     altitude = Some ((push_bit 8 (uint (data ! 6)) + uint (data ! 7)) - 1000),
     accuracy = Some ((of_int (uint (data ! 8)) / 10 * 5 + 5) / 10)\<rparr>"
  using assms(2,3) unfolding decode_def decode_10 [OF assms(1)] Let_def
  by (simp only: sum.case split: if_split_asm) auto

lemma byte_bounds: "0 \<le> uint (w::byte)" "uint (w::byte) < 256"
  using uint_bounded [of w] by simp_all

lemma encLat_bounds:
  assumes "0 \<le> b0" "0 \<le> b1" "b1 < 256" "0 \<le> b2" "b2 < 256" "0 \<le> b3" "b3 < 256"
  shows "0 \<le> encLat b0 b1 b2 b3" "encLat b0 b1 b2 b3 < 2 ^ 23"
proof -
  have m: "0 \<le> b0 mod 64" "b0 mod 64 < 64" by simp_all
  have d: "0 \<le> b3 div 128" "b3 div 128 \<le> 1" using assms by simp_all
  show "0 \<le> encLat b0 b1 b2 b3" unfolding encLat_arith using m d assms by simp
  show "encLat b0 b1 b2 b3 < 2 ^ 23" unfolding encLat_arith using m d assms by simp
qed

lemma encLon_bounds:
  assumes "0 \<le> b4" "b4 < 256" "0 \<le> b5" "b5 < 256"
  shows "0 \<le> encLon b3 b4 b5" "encLon b3 b4 b5 < 2 ^ 23"
proof -
  have m: "0 \<le> b3 mod 128" "b3 mod 128 < 128" by simp_all
  show "0 \<le> encLon b3 b4 b5" unfolding encLon_arith using m assms by simp
  show "encLon b3 b4 b5 < 2 ^ 23" unfolding encLon_arith using m assms by simp
qed

text \<open>
  Claim C4. For every 10-byte payload with a fix, latitude and longitude are
  \<open>sign * (enc * 108 + 53) / 10000000\<close> and \<open>sign * (enc * 215 + 107) / 10000000\<close>: the
  longitude is negative iff bit 7 of byte 0 is set, the latitude iff bit 6 is; the latitude
  magnitude is the low 6 bits of byte 0, bytes 1 and 2 and the top bit of byte 3 (it fits in
  24 bits), the longitude magnitude the low 7 bits of byte 3 and bytes 4 and 5 (23 bits);
  the altitude is \<open>(byte[6] << 8) + byte[7] - 1000\<close> and the accuracy
  \<open>(hdop * 5 + 5) / 10\<close>.
\<close>

theorem decode_position:
  fixes data :: "byte list"
  defines "b \<equiv> \<lambda>i. uint (data ! i)"
  defines "eLat \<equiv> (b 0 mod 64) * 2 ^ 17 + b 1 * 2 ^ 9 + b 2 * 2 + b 3 div 128"
  defines "eLon \<equiv> (b 3 mod 128) * 2 ^ 16 + b 4 * 2 ^ 8 + b 5"
  assumes "length data = 10" and "decode data = Inr g" and "has_gps g"
  shows "latitude g = Some (of_int ((if bit (data ! 0) 6 then - 1 else 1) * (eLat * 108 + 53)) / 10000000)
     \<and> longitude g = Some (of_int ((if bit (data ! 0) 7 then - 1 else 1) * (eLon * 215 + 107)) / 10000000)
     \<and> altitude g = Some (b 6 * 256 + b 7 - 1000)
     \<and> accuracy g = Some ((hdop g * 5 + 5) / 10)
     \<and> 0 \<le> eLat \<and> eLat < 2 ^ 24 \<and> 0 \<le> eLon \<and> eLon < 2 ^ 23"
proof -
  note g = decode_fix [OF assms(4,5,6)]
  have lat: "eLat = encLat (b 0) (b 1) (b 2) (b 3)"
    unfolding eLat_def encLat_arith ..
  have lon: "eLon = encLon (b 3) (b 4) (b 5)"
    unfolding eLon_def encLon_arith ..
  have bl: "0 \<le> eLat" "eLat < 2 ^ 23"
    unfolding lat b_def by (rule encLat_bounds; rule byte_bounds)+
  have bo: "0 \<le> eLon" "eLon < 2 ^ 23"
    unfolding lon b_def by (rule encLon_bounds; rule byte_bounds)+
  have 1: "latitude g = Some (of_int ((if bit (data ! 0) 6 then - 1 else 1) * (eLat * 108 + 53)) / 10000000)"
    unfolding lat b_def by (subst g) (simp add: latSign_bit)
  have 2: "longitude g = Some (of_int ((if bit (data ! 0) 7 then - 1 else 1) * (eLon * 215 + 107)) / 10000000)"
    unfolding lon b_def by (subst g) (simp add: lonSign_bit)
  have 3: "altitude g = Some (b 6 * 256 + b 7 - 1000)"
    unfolding b_def by (subst g) (simp add: push_bit_eq_mult)
  have 4: "accuracy g = Some ((hdop g * 5 + 5) / 10)"
    by (subst (1 2) g) simp
  from bl have "eLat < 2 ^ 24" by simp
  with 1 2 3 4 bl bo show ?thesis by simp
qed

theorem decode_position_witness:
  "length example_payload = 10 \<and> decode example_payload = Inr example_decoded
   \<and> has_gps example_decoded
   \<and> latitude example_decoded = Some (- (14267177 / 10000000))
   \<and> longitude example_decoded = Some (56637557 / 10000000)
   \<and> altitude example_decoded = Some 800 \<and> accuracy example_decoded = Some (3 / 2)"
proof -
  have h1: "length example_payload = 10" by (simp add: example_payload_def)
  have h2: "decode example_payload = Inr example_decoded" by code_simp
  have h3: "has_gps example_decoded" by (simp add: example_decoded_def)
  from decode_position [OF h1 h2 h3] h1 h2 h3 show ?thesis
    by (simp add: example_decoded_def)
qed

section \<open>The gateway aggregation\<close>

text \<open>
  Claim C7. Over an empty gateway list and with a fix, the aggregate keeps its initial
  values: no gateway, signal bounds 200 and -200, distances 1000000 and 0.
\<close>

theorem aggregate_no_gateways:
  "has_gps g \<Longrightarrow> aggregate_gateways C g (JArr []) =
     Inr \<lparr>gpsfix = g, num_gateways = 0, min_distance = 1000000, max_distance = 0,
          min_rssi = 200, max_rssi = - 200\<rparr>"
  by (simp add: aggregate_gateways_def aggregate_init_def MAX_DISTANCE_def MIN_DISTANCE_def
      MAX_RSSI_def MIN_RSSI_def)

theorem aggregate_no_gateways_witness:
  "has_gps example_fix \<and> aggregate_gateways (\<lambda>_ _ _ _. None) example_fix (JArr []) =
     Inr \<lparr>gpsfix = example_fix, num_gateways = 0, min_distance = 1000000, max_distance = 0,
          min_rssi = 200, max_rssi = - 200\<rparr>"
proof -
  have h: "has_gps example_fix" by (simp add: example_fix_def)
  from h aggregate_no_gateways [OF h] show ?thesis by (rule conjI)
qed

section \<open>The encoder\<close>

text \<open>
  Claim C5. On port 1, with sequence number 300, signals -80 and -60, distances 500 m and
  1000 m, three gateways and a fix, the buffer is \<open>[44, 120, 140, 2, 4, 3]\<close>.
\<close>

theorem encode_port1_example:
  "encode \<lparr>gpsfix = g\<lparr>has_gps := True\<rparr>, num_gateways = 3, min_distance = 500,
      max_distance = 1000, min_rssi = - 80, max_rssi = - 60\<rparr> (JInt 1) (JInt 300)
   = Inr (Some [44, 120, 140, 2, 4, 3])"
  by (simp add: encode_def buffer1_def py_eq_int_def distance_byte_def constrain_def
      py_round_def py_int_def)

lemma constrain_bounds: "lower \<le> upper \<Longrightarrow> lower \<le> constrain v lower upper \<and> constrain v lower upper \<le> upper"
  by (simp add: constrain_def)

lemma distance_byte_range:
  "distance_byte a d = (if has_gps (gpsfix a) then constrain (py_round (of_int d / 250)) 1 128 else 0)"
  "0 \<le> distance_byte a d" "distance_byte a d < 256"
  "(distance_byte a d \<noteq> 0) = has_gps (gpsfix a)"
  "has_gps (gpsfix a) \<Longrightarrow> 1 \<le> distance_byte a d \<and> distance_byte a d \<le> 128"
  using constrain_bounds [of 1 128 "py_round (of_int d / 250)"]
  by (auto simp add: distance_byte_def)

lemma distance_word_range:
  "0 \<le> distance_word a d" "distance_word a d < 65536"
  "(distance_word a d \<noteq> 0) = has_gps (gpsfix a)"
  "has_gps (gpsfix a) \<Longrightarrow> 1 \<le> distance_word a d \<and> distance_word a d \<le> 65535"
  using constrain_bounds [of 1 65535 "py_round (of_int d / 10)"]
  by (auto simp add: distance_word_def)

lemma py_int_div256: "0 \<le> w \<Longrightarrow> py_int (of_int w / 256) = w div 256"
proof -
  assume w: "0 \<le> w"
  then have "0 \<le> rat_of_int w / 256" by simp
  then have "py_int (of_int w / 256) = \<lfloor>rat_of_int w / rat_of_int 256\<rfloor>"
    by (simp add: py_int_def)
  also have "\<dots> = w div 256" by (rule floor_divide_of_int_eq)
  finally show ?thesis .
qed

lemma hi_lo:
  assumes "0 \<le> w" "w < 65536"
  shows "0 \<le> py_int (of_int w / 256) mod 256" "py_int (of_int w / 256) mod 256 < 256"
    "0 \<le> w mod 256" "w mod 256 < 256"
    "256 * (py_int (of_int w / 256) mod 256) + w mod 256 = w"
proof -
  have d: "w div 256 < 256" using assms by simp
  have e: "0 \<le> w div 256" using assms by simp
  from d e have m: "(w div 256) mod 256 = w div 256" by simp
  show "0 \<le> py_int (of_int w / 256) mod 256" by simp
  show "py_int (of_int w / 256) mod 256 < 256" by simp
  show "0 \<le> w mod 256" by simp
  show "w mod 256 < 256" by simp
  show "256 * (py_int (of_int w / 256) mod 256) + w mod 256 = w"
    unfolding py_int_div256 [OF assms(1)] m by simp
qed

lemma py_round_cases:
  obtains (down) "x - of_int \<lfloor>x\<rfloor> < 1 / 2" "py_round x = \<lfloor>x\<rfloor>"
  | (up) "1 / 2 < x - of_int \<lfloor>x\<rfloor>" "py_round x = \<lfloor>x\<rfloor> + 1"
  | (tie) "x - of_int \<lfloor>x\<rfloor> = 1 / 2" "even (py_round x)"
    "py_round x = \<lfloor>x\<rfloor> \<or> py_round x = \<lfloor>x\<rfloor> + 1"
proof (cases "x - of_int \<lfloor>x\<rfloor> < 1 / 2")
  case True
  then show ?thesis by (intro down) (simp_all add: py_round_def Let_def)
next
  case nlt: False
  show ?thesis
  proof (cases "1 / 2 < x - of_int \<lfloor>x\<rfloor>")
    case True
    with nlt show ?thesis by (intro up) (simp_all add: py_round_def Let_def)
  next
    case False
    with nlt have e: "x - of_int \<lfloor>x\<rfloor> = 1 / 2" by linarith
    then show ?thesis by (intro tie) (simp_all add: py_round_def Let_def)
  qed
qed

lemma py_round_nearest: "\<bar>rat_of_int (py_round x) - x\<bar> \<le> 1 / 2"
proof -
  have f: "of_int \<lfloor>x\<rfloor> \<le> x" "x < of_int \<lfloor>x\<rfloor> + 1" by linarith+
  show ?thesis
  proof (cases x rule: py_round_cases)
    case down
    from down(2) have "rat_of_int (py_round x) = of_int \<lfloor>x\<rfloor>" by simp
    with f down(1) show ?thesis by linarith
  next
    case up
    from up(2) have "rat_of_int (py_round x) = of_int \<lfloor>x\<rfloor> + 1" by simp
    with f up(1) show ?thesis by linarith
  next
    case tie
    from tie(3) have "rat_of_int (py_round x) = of_int \<lfloor>x\<rfloor>
        \<or> rat_of_int (py_round x) = of_int \<lfloor>x\<rfloor> + 1" by auto
    with f tie(1) show ?thesis by linarith
  qed
qed

lemma py_round_tie:
  assumes "\<bar>rat_of_int (py_round x) - x\<bar> = 1 / 2"
  shows "even (py_round x)"
proof (cases x rule: py_round_cases)
  case down
  from down(2) have "rat_of_int (py_round x) = of_int \<lfloor>x\<rfloor>" by simp
  moreover have "of_int \<lfloor>x\<rfloor> \<le> x" by linarith
  ultimately have False using assms down(1) by linarith
  then show ?thesis ..
next
  case up
  from up(2) have "rat_of_int (py_round x) = of_int \<lfloor>x\<rfloor> + 1" by simp
  moreover have "x < of_int \<lfloor>x\<rfloor> + 1" by linarith
  ultimately have False using assms up(1) by linarith
  then show ?thesis ..
next
  case tie
  then show ?thesis by simp
qed

lemma encode_port1: "encode a (JInt 1) (JInt s) = Inr (Some (buffer1 a (s mod 256)))"
  by (simp add: encode_def py_eq_int_def)

lemma encode_port11: "encode a (JInt 11) (JInt s) = Inr (Some (buffer11 a (s mod 256)))"
  by (simp add: encode_def py_eq_int_def)


lemma mod256_le: "(x::int) mod 256 \<le> 255"
proof -
  have "x mod 256 < 256" by simp
  then show ?thesis by linarith
qed

lemma py_bytes_ok:
  assumes "list_all (\<lambda>x. 0 \<le> x \<and> x \<le> 255) xs"
  shows "py_bytes xs = Inr (map word_of_int xs)"
proof -
  have "(\<lambda>x::int. 0 \<le> x \<and> x \<le> 255) = (\<lambda>x. 0 \<le> x \<and> x < 256)" by (intro ext) auto
  with assms show ?thesis by (simp add: py_bytes_def)
qed

lemma buffer1_bytes: "list_all (\<lambda>x. 0 \<le> x \<and> x \<le> 255) (buffer1 a (s mod 256))"
  using distance_byte_range(2,3) [of a "min_distance a"]
    distance_byte_range(2,3) [of a "max_distance a"]
  by (simp add: buffer1_def mod256_le)

lemma buffer11_bytes: "list_all (\<lambda>x. 0 \<le> x \<and> x \<le> 255) (buffer11 a (s mod 256))"
  by (simp add: buffer11_def Let_def mod256_le)

text \<open>
  Claim C9. For every aggregate and sequence number, on port 1 and on port 11, every
  element of the buffer lies in 0..255, so \<open>bytes()\<close> succeeds; a distance field is
  non-zero exactly when there is a fix: with one, the port 1 bytes lie in 1..128 and the
  port 11 16-bit values in 1..65535, without one they are 0.
\<close>

theorem encode_buffer_bytes:
  "(\<exists>b0 b1 b2 d1 d2 n.
      encode a (JInt 1) (JInt s) = Inr (Some [b0, b1, b2, d1, d2, n])
      \<and> list_all (\<lambda>x. 0 \<le> x \<and> x \<le> 255) [b0, b1, b2, d1, d2, n]
      \<and> py_bytes [b0, b1, b2, d1, d2, n] = Inr (map word_of_int [b0, b1, b2, d1, d2, n])
      \<and> (d1 \<noteq> 0) = has_gps (gpsfix a) \<and> (d2 \<noteq> 0) = has_gps (gpsfix a)
      \<and> (if has_gps (gpsfix a) then 1 \<le> d1 \<and> d1 \<le> 128 \<and> 1 \<le> d2 \<and> d2 \<le> 128
          else d1 = 0 \<and> d2 = 0))
   \<and> (\<exists>b0 b1 b2 h1 l1 h2 l2 n.
      encode a (JInt 11) (JInt s) = Inr (Some [b0, b1, b2, h1, l1, h2, l2, n])
      \<and> list_all (\<lambda>x. 0 \<le> x \<and> x \<le> 255) [b0, b1, b2, h1, l1, h2, l2, n]
      \<and> py_bytes [b0, b1, b2, h1, l1, h2, l2, n]
          = Inr (map word_of_int [b0, b1, b2, h1, l1, h2, l2, n])
      \<and> (256 * h1 + l1 \<noteq> 0) = has_gps (gpsfix a)
      \<and> (256 * h2 + l2 \<noteq> 0) = has_gps (gpsfix a)
      \<and> (if has_gps (gpsfix a)
          then 1 \<le> 256 * h1 + l1 \<and> 256 * h1 + l1 \<le> 65535
             \<and> 1 \<le> 256 * h2 + l2 \<and> 256 * h2 + l2 \<le> 65535
          else 256 * h1 + l1 = 0 \<and> 256 * h2 + l2 = 0))"
proof (rule conjI)
  let ?b = "buffer1 a (s mod 256)"
  have e: "encode a (JInt 1) (JInt s) = Inr (Some ?b)" by (rule encode_port1)
  have r: "list_all (\<lambda>x. 0 \<le> x \<and> x \<le> 255) ?b" by (rule buffer1_bytes)
  have p: "py_bytes ?b = Inr (map word_of_int ?b)" by (rule py_bytes_ok [OF r])
  note d1 = distance_byte_range(4,5) [of a "min_distance a"]
  note d2 = distance_byte_range(4,5) [of a "max_distance a"]
  show "\<exists>b0 b1 b2 d1 d2 n.
      encode a (JInt 1) (JInt s) = Inr (Some [b0, b1, b2, d1, d2, n])
      \<and> list_all (\<lambda>x. 0 \<le> x \<and> x \<le> 255) [b0, b1, b2, d1, d2, n]
      \<and> py_bytes [b0, b1, b2, d1, d2, n] = Inr (map word_of_int [b0, b1, b2, d1, d2, n])
      \<and> (d1 \<noteq> 0) = has_gps (gpsfix a) \<and> (d2 \<noteq> 0) = has_gps (gpsfix a)
      \<and> (if has_gps (gpsfix a) then 1 \<le> d1 \<and> d1 \<le> 128 \<and> 1 \<le> d2 \<and> d2 \<le> 128
          else d1 = 0 \<and> d2 = 0)"
    using e r p d1 d2 unfolding buffer1_def by (intro exI conjI) (assumption | auto)+
next
  let ?b = "buffer11 a (s mod 256)"
  let ?mn = "distance_word a (min_distance a)"
  let ?mx = "distance_word a (max_distance a)"
  have e: "encode a (JInt 11) (JInt s) = Inr (Some ?b)" by (rule encode_port11)
  have r: "list_all (\<lambda>x. 0 \<le> x \<and> x \<le> 255) ?b" by (rule buffer11_bytes)
  have p: "py_bytes ?b = Inr (map word_of_int ?b)" by (rule py_bytes_ok [OF r])
  have mn: "256 * (py_int (of_int ?mn / 256) mod 256) + ?mn mod 256 = ?mn"
    by (rule hi_lo(5) [OF distance_word_range(1,2)])
  have mx: "256 * (py_int (of_int ?mx / 256) mod 256) + ?mx mod 256 = ?mx"
    by (rule hi_lo(5) [OF distance_word_range(1,2)])
  note d1 = distance_word_range(3,4) [of a "min_distance a"]
  note d2 = distance_word_range(3,4) [of a "max_distance a"]
  have z: "\<not> has_gps (gpsfix a) \<Longrightarrow> ?mn = 0 \<and> ?mx = 0"
    by (simp add: distance_word_def)
  show "\<exists>b0 b1 b2 h1 l1 h2 l2 n.
      encode a (JInt 11) (JInt s) = Inr (Some [b0, b1, b2, h1, l1, h2, l2, n])
      \<and> list_all (\<lambda>x. 0 \<le> x \<and> x \<le> 255) [b0, b1, b2, h1, l1, h2, l2, n]
      \<and> py_bytes [b0, b1, b2, h1, l1, h2, l2, n]
          = Inr (map word_of_int [b0, b1, b2, h1, l1, h2, l2, n])
      \<and> (256 * h1 + l1 \<noteq> 0) = has_gps (gpsfix a)
      \<and> (256 * h2 + l2 \<noteq> 0) = has_gps (gpsfix a)
      \<and> (if has_gps (gpsfix a)
          then 1 \<le> 256 * h1 + l1 \<and> 256 * h1 + l1 \<le> 65535
             \<and> 1 \<le> 256 * h2 + l2 \<and> 256 * h2 + l2 \<le> 65535
          else 256 * h1 + l1 = 0 \<and> 256 * h2 + l2 = 0)"
  proof (intro exI conjI)
    show "encode a (JInt 11) (JInt s) = Inr (Some
       [s mod 256, py_int (min_rssi a + 200) mod 256, py_int (max_rssi a + 200) mod 256,
        py_int (of_int ?mn / 256) mod 256, ?mn mod 256,
        py_int (of_int ?mx / 256) mod 256, ?mx mod 256, num_gateways a mod 256])"
      using e by (simp add: buffer11_def Let_def)
    show "list_all (\<lambda>x. 0 \<le> x \<and> x \<le> 255)
       [s mod 256, py_int (min_rssi a + 200) mod 256, py_int (max_rssi a + 200) mod 256,
        py_int (of_int ?mn / 256) mod 256, ?mn mod 256,
        py_int (of_int ?mx / 256) mod 256, ?mx mod 256, num_gateways a mod 256]"
      using r by (simp add: buffer11_def Let_def)
    show "py_bytes 
       [s mod 256, py_int (min_rssi a + 200) mod 256, py_int (max_rssi a + 200) mod 256,
        py_int (of_int ?mn / 256) mod 256, ?mn mod 256,
        py_int (of_int ?mx / 256) mod 256, ?mx mod 256, num_gateways a mod 256]
      = Inr (map word_of_int  [s mod 256, py_int (min_rssi a + 200) mod 256, py_int (max_rssi a + 200) mod 256,
        py_int (of_int ?mn / 256) mod 256, ?mn mod 256,
        py_int (of_int ?mx / 256) mod 256, ?mx mod 256, num_gateways a mod 256])"
      using p by (simp add: buffer11_def Let_def)
    show "(256 * (py_int (of_int ?mn / 256) mod 256) + ?mn mod 256 \<noteq> 0) = has_gps (gpsfix a)"
      unfolding mn by (rule d1)
    show "(256 * (py_int (of_int ?mx / 256) mod 256) + ?mx mod 256 \<noteq> 0) = has_gps (gpsfix a)"
      unfolding mx by (rule d2)
    show "if has_gps (gpsfix a)
          then 1 \<le> 256 * (py_int (of_int ?mn / 256) mod 256) + ?mn mod 256
             \<and> 256 * (py_int (of_int ?mn / 256) mod 256) + ?mn mod 256 \<le> 65535
             \<and> 1 \<le> 256 * (py_int (of_int ?mx / 256) mod 256) + ?mx mod 256
             \<and> 256 * (py_int (of_int ?mx / 256) mod 256) + ?mx mod 256 \<le> 65535
          else 256 * (py_int (of_int ?mn / 256) mod 256) + ?mn mod 256 = 0
             \<and> 256 * (py_int (of_int ?mx / 256) mod 256) + ?mx mod 256 = 0"
      unfolding mn mx using d1(2) d2(2) z by simp
  qed
qed

text \<open>
  Claim C1, as stated, fails: the code rounds with Python's \<open>round\<close>, which sends a tie
  to the even neighbour. For 12345 m on port 11 the encoded value is 1234 (bytes 4 and
  210), where rounding half away from zero gives 1235.
\<close>

theorem encode_rounding_counterexample:
  "distance_word example_aggregate 12345 = 1234
   \<and> constrain (round_half_away (12345 / 10)) 1 65535 = 1235
   \<and> encode example_aggregate (JInt 11) (JInt 0) = Inr (Some [0, 120, 120, 4, 210, 4, 210, 1])"
  by code_simp

lemma py_round_12345: "py_round (2469 / 2) = 1234"
  by code_simp

lemma py_int_1234: "py_int (617 / 128) = 4"
  by code_simp

text \<open>
  Claim C1, amended. With a fix, the port 1 distance byte is
  \<open>clamp(round(metres / 250), 1, 128)\<close> and the port 11 16-bit distance, split big-endian
  into two bytes, is \<open>clamp(round(metres / 10), 1, 65535)\<close>, where \<open>round\<close> is the nearest
  integer with a tie going to the even one; 12345 m on port 11 encodes as 1234, bytes 4
  and 210.
\<close>

theorem encode_rounding_half_even:
  assumes "has_gps (gpsfix a)"
  shows "(\<exists>b0 b1 b2 n. encode a (JInt 1) (JInt s) = Inr (Some [b0, b1, b2,
            constrain (py_round (of_int (min_distance a) / 250)) 1 128,
            constrain (py_round (of_int (max_distance a) / 250)) 1 128, n]))
   \<and> (\<exists>b0 b1 b2 h1 l1 h2 l2 n.
          encode a (JInt 11) (JInt s) = Inr (Some [b0, b1, b2, h1, l1, h2, l2, n])
        \<and> 0 \<le> h1 \<and> h1 < 256 \<and> 0 \<le> l1 \<and> l1 < 256
        \<and> 0 \<le> h2 \<and> h2 < 256 \<and> 0 \<le> l2 \<and> l2 < 256
        \<and> 256 * h1 + l1 = constrain (py_round (of_int (min_distance a) / 10)) 1 65535
        \<and> 256 * h2 + l2 = constrain (py_round (of_int (max_distance a) / 10)) 1 65535
        \<and> (if min_distance a = 12345 then h1 = 4 \<and> l1 = 210 else True))
   \<and> \<bar>rat_of_int (py_round x) - x\<bar> \<le> 1 / 2
   \<and> (if \<bar>rat_of_int (py_round x) - x\<bar> = 1 / 2 then even (py_round x) else True)"
proof (intro conjI)
  show "\<exists>b0 b1 b2 n. encode a (JInt 1) (JInt s) = Inr (Some [b0, b1, b2,
            constrain (py_round (of_int (min_distance a) / 250)) 1 128,
            constrain (py_round (of_int (max_distance a) / 250)) 1 128, n])"
    using assms by (simp add: encode_port1 buffer1_def distance_byte_def)
next
  let ?mn = "distance_word a (min_distance a)"
  let ?mx = "distance_word a (max_distance a)"
  have mn: "?mn = constrain (py_round (of_int (min_distance a) / 10)) 1 65535"
    and mx: "?mx = constrain (py_round (of_int (max_distance a) / 10)) 1 65535"
    using assms by (simp_all add: distance_word_def)
  note hmn = hi_lo [OF distance_word_range(1,2), of a "min_distance a"]
  note hmx = hi_lo [OF distance_word_range(1,2), of a "max_distance a"]
  have ex: "min_distance a = 12345 \<Longrightarrow>
      py_int (of_int ?mn / 256) mod 256 = 4 \<and> ?mn mod 256 = 210"
    using assms by (simp add: distance_word_def constrain_def py_round_12345 py_int_1234)
  show "\<exists>b0 b1 b2 h1 l1 h2 l2 n.
          encode a (JInt 11) (JInt s) = Inr (Some [b0, b1, b2, h1, l1, h2, l2, n])
        \<and> 0 \<le> h1 \<and> h1 < 256 \<and> 0 \<le> l1 \<and> l1 < 256
        \<and> 0 \<le> h2 \<and> h2 < 256 \<and> 0 \<le> l2 \<and> l2 < 256
        \<and> 256 * h1 + l1 = constrain (py_round (of_int (min_distance a) / 10)) 1 65535
        \<and> 256 * h2 + l2 = constrain (py_round (of_int (max_distance a) / 10)) 1 65535
        \<and> (if min_distance a = 12345 then h1 = 4 \<and> l1 = 210 else True)"
  proof (intro exI conjI)
    show "encode a (JInt 11) (JInt s) = Inr (Some
       [s mod 256, py_int (min_rssi a + 200) mod 256, py_int (max_rssi a + 200) mod 256,
        py_int (of_int ?mn / 256) mod 256, ?mn mod 256,
        py_int (of_int ?mx / 256) mod 256, ?mx mod 256, num_gateways a mod 256])"
      by (simp add: encode_port11 buffer11_def Let_def)
    show "256 * (py_int (of_int ?mn / 256) mod 256) + ?mn mod 256
        = constrain (py_round (of_int (min_distance a) / 10)) 1 65535"
      using hmn(5) mn by simp
    show "256 * (py_int (of_int ?mx / 256) mod 256) + ?mx mod 256
        = constrain (py_round (of_int (max_distance a) / 10)) 1 65535"
      using hmx(5) mx by simp
    show "if min_distance a = 12345
          then py_int (of_int ?mn / 256) mod 256 = 4 \<and> ?mn mod 256 = 210 else True"
      using ex by simp
  qed (rule hmn hmx)+
next
  show "\<bar>rat_of_int (py_round x) - x\<bar> \<le> 1 / 2" by (rule py_round_nearest)
  show "if \<bar>rat_of_int (py_round x) - x\<bar> = 1 / 2 then even (py_round x) else True"
    using py_round_tie [of x] by simp
qed

theorem encode_rounding_half_even_witness:
  "has_gps (gpsfix example_aggregate)
   \<and> ((\<exists>b0 b1 b2 n. encode example_aggregate (JInt 1) (JInt 0) = Inr (Some [b0, b1, b2,
            constrain (py_round (of_int (min_distance example_aggregate) / 250)) 1 128,
            constrain (py_round (of_int (max_distance example_aggregate) / 250)) 1 128, n]))
   \<and> (\<exists>b0 b1 b2 h1 l1 h2 l2 n.
          encode example_aggregate (JInt 11) (JInt 0) = Inr (Some [b0, b1, b2, h1, l1, h2, l2, n])
        \<and> 0 \<le> h1 \<and> h1 < 256 \<and> 0 \<le> l1 \<and> l1 < 256
        \<and> 0 \<le> h2 \<and> h2 < 256 \<and> 0 \<le> l2 \<and> l2 < 256
        \<and> 256 * h1 + l1 = constrain (py_round (of_int (min_distance example_aggregate) / 10)) 1 65535
        \<and> 256 * h2 + l2 = constrain (py_round (of_int (max_distance example_aggregate) / 10)) 1 65535
        \<and> (if min_distance example_aggregate = 12345 then h1 = 4 \<and> l1 = 210 else True))
   \<and> \<bar>rat_of_int (py_round (5 / 2)) - 5 / 2\<bar> \<le> 1 / 2
   \<and> (if \<bar>rat_of_int (py_round (5 / 2)) - 5 / 2\<bar> = 1 / 2 then even (py_round (5 / 2)) else True))"
proof -
  have h: "has_gps (gpsfix example_aggregate)"
    by (simp add: example_aggregate_def example_fix_def)
  from h encode_rounding_half_even [OF h, of 0 "5 / 2"] show ?thesis by (rule conjI)
qed

section \<open>The parsers\<close>

lemma decode_short: "length data < 10 \<Longrightarrow> decode data = Inl IndexError"
  by (simp add: decode_def byte_at_def)

lemma process_short: "length data < 10 \<Longrightarrow> process C data port sequence_id gateways = Inl IndexError"
  by (simp add: process_def decode_short)

lemma parser_tts3_call:
  assumes "loads E body = Some (JObj kv)"
    and "map_of kv ''uplink_message'' = Some (JObj um)"
    and "map_of um ''f_port'' = Some port"
    and "py_eq_int port 1 \<or> py_eq_int port 11"
    and "map_of um ''f_cnt'' = Some sequence_id"
    and "map_of um ''rx_metadata'' = Some gateways"
    and "map_of um ''frm_payload'' = Some (JStr s)"
    and "b64decode E s = Some data"
  shows "parser_tts3 E topic body =
     (case process (circleDistance E) data port sequence_id gateways of
        Inl e \<Rightarrow> Inl e
      | Inr out \<Rightarrow> build_tts3 E topic port (snd out))"
  using assms by (auto simp add: parser_tts3_def)

lemma parser_cs34_call:
  assumes "loads E body = Some (JObj kv)"
    and "map_of kv ''fPort'' = Some port"
    and "py_eq_int port 1 \<or> py_eq_int port 11"
    and "map_of kv ''fCnt'' = Some sequence_id"
    and "map_of kv ''rxInfo'' = Some gateways"
    and "map_of kv ''data'' = Some (JStr s)"
    and "b64decode E s = Some data"
  shows "parser_cs34 E topic body =
     (case process (circleDistance E) data port sequence_id gateways of
        Inl e \<Rightarrow> Inl e
      | Inr out \<Rightarrow> build_cs34 E topic (JObj kv) (map_of kv ''deviceInfo'' \<noteq> None) port (snd out))"
  using assms by (auto simp add: parser_cs34_def simp del: not_None_eq)

lemma build_tts3_topic:
  "build_tts3 E topic port buf = Inr (Some (t, b)) \<Longrightarrow> t = py_replace ''/up'' ''/down/replace'' topic"
  by (auto simp add: build_tts3_def split: sum.splits option.splits)

lemma build_cs34_topic:
  "build_cs34 E topic p v4 port buf = Inr (Some (t, b)) \<Longrightarrow> t = py_replace ''/event/up'' ''/command/down'' topic"
  by (auto simp add: build_cs34_def Let_def split: sum.splits option.splits if_splits)

lemma parser_tts3_topic:
  "parser_tts3 E topic body = Inr (Some (t, b)) \<Longrightarrow> t = py_replace ''/up'' ''/down/replace'' topic"
  unfolding parser_tts3_def
  by (auto split: sum.splits option.splits if_splits bool.splits dest: build_tts3_topic)

lemma parser_cs34_topic:
  "parser_cs34 E topic body = Inr (Some (t, b)) \<Longrightarrow> t = py_replace ''/event/up'' ''/command/down'' topic"
  unfolding parser_cs34_def
  by (auto split: sum.splits option.splits if_splits bool.splits dest: build_cs34_topic)

lemma py_replace_absent: "\<not> sublist old s \<Longrightarrow> py_replace old new s = s"
proof (induction s)
  case Nil
  show ?case by simp
next
  case (Cons c cs)
  from Cons.prems have "\<not> prefix old (c # cs)" by (auto dest: prefix_imp_sublist)
  moreover from Cons.prems have "\<not> sublist old cs" by (auto simp add: sublist_Cons_right)
  ultimately show ?case using Cons.IH by simp
qed

lemma prefix_shifted:
  assumes "prefix old ((c # a) @ old @ b)"
  shows "prefix old ((c # a) @ butlast old)"
proof (cases "old = []")
  case True
  then show ?thesis by simp
next
  case False
  let ?n = "length old"
  from assms have "old = take ?n ((c # a) @ old @ b)"
    by (metis append_eq_conv_conj prefix_def)
  also have "(c # a) @ old @ b = ((c # a) @ butlast old) @ (last old # b)"
    using False by simp
  also have "take ?n (((c # a) @ butlast old) @ (last old # b)) = take ?n ((c # a) @ butlast old)"
  proof -
    from False have "0 < length old" by simp
    then have "?n \<le> length ((c # a) @ butlast old)" by simp
    then show ?thesis by (simp only: take_append) simp
  qed
  finally have "old = take ?n ((c # a) @ butlast old)" .
  then show ?thesis by (metis take_is_prefix)
qed

lemma py_replace_first:
  assumes "old \<noteq> []" and "\<not> sublist old (a @ butlast old)"
  shows "py_replace old new (a @ old @ b) = a @ new @ py_replace old new b"
  using assms(2)
proof (induction a)
  case Nil
  from assms(1) obtain c cs where o: "old = c # cs" by (cases old) auto
  show ?case by (simp add: o)
next
  case (Cons c a)
  from Cons.prems have "\<not> prefix old ((c # a) @ butlast old)"
    by (auto dest: prefix_imp_sublist)
  then have np: "\<not> prefix old (c # a @ old @ b)"
    using prefix_shifted [of old c a b] by auto
  from Cons.prems have "\<not> sublist old (a @ butlast old)"
    by (auto simp add: sublist_Cons_right)
  with Cons.IH have "py_replace old new (a @ old @ b) = a @ new @ py_replace old new b" .
  with np show ?case by simp
qed

text \<open>
  Claim C2, as stated, fails: on a payload shorter than 10 bytes \<open>process\<close> raises
  IndexError at \<open>data[8]\<close> and neither parser catches it. Here the payload is the three
  bytes of \<open>AAAA\<close>.
\<close>

theorem short_payload_counterexample:
  "parser_tts3 example_env ''v3/app/devices/dev1/up'' body_tts3_short = Inl IndexError
   \<and> parser_cs34 example_env ''application/1/device/dev1/event/up'' body_cs34_short
       = Inl IndexError"
  by code_simp

text \<open>
  Claim C2, amended. For every uplink on port 1 or 11 that carries the other fields and
  whose decoded payload is shorter than 10 bytes, \<open>process\<close> raises IndexError and the
  parser, of either variant, passes it on: no downlink is returned, and the exception
  leaves the parser.
\<close>

theorem short_payload_raises:
  "(length data < 10 \<longrightarrow> process C data port sequence_id gateways = Inl IndexError)
   \<and> (loads E body = Some (JObj kv) \<and> map_of kv ''uplink_message'' = Some (JObj um)
        \<and> map_of um ''f_port'' = Some port \<and> (py_eq_int port 1 \<or> py_eq_int port 11)
        \<and> map_of um ''f_cnt'' = Some sequence_id
        \<and> map_of um ''rx_metadata'' = Some gateways
        \<and> map_of um ''frm_payload'' = Some (JStr s) \<and> b64decode E s = Some data
        \<and> length data < 10
      \<longrightarrow> parser_tts3 E topic body = Inl IndexError)
   \<and> (loads E body = Some (JObj kv)
        \<and> map_of kv ''fPort'' = Some port \<and> (py_eq_int port 1 \<or> py_eq_int port 11)
        \<and> map_of kv ''fCnt'' = Some sequence_id
        \<and> map_of kv ''rxInfo'' = Some gateways
        \<and> map_of kv ''data'' = Some (JStr s) \<and> b64decode E s = Some data
        \<and> length data < 10
      \<longrightarrow> parser_cs34 E topic body = Inl IndexError)"
proof (intro conjI impI; (elim conjE)?)
  assume "length data < 10"
  then show "process C data port sequence_id gateways = Inl IndexError"
    by (rule process_short)
next
  assume a: "loads E body = Some (JObj kv)" "map_of kv ''uplink_message'' = Some (JObj um)"
    "map_of um ''f_port'' = Some port" "py_eq_int port 1 \<or> py_eq_int port 11"
    "map_of um ''f_cnt'' = Some sequence_id" "map_of um ''rx_metadata'' = Some gateways"
    "map_of um ''frm_payload'' = Some (JStr s)" "b64decode E s = Some data"
    and l: "length data < 10"
  show "parser_tts3 E topic body = Inl IndexError"
    by (simp add: parser_tts3_call [OF a] process_short [OF l])
next
  assume a: "loads E body = Some (JObj kv)"
    "map_of kv ''fPort'' = Some port" "py_eq_int port 1 \<or> py_eq_int port 11"
    "map_of kv ''fCnt'' = Some sequence_id" "map_of kv ''rxInfo'' = Some gateways"
    "map_of kv ''data'' = Some (JStr s)" "b64decode E s = Some data"
    and l: "length data < 10"
  show "parser_cs34 E topic body = Inl IndexError"
    by (simp add: parser_cs34_call [OF a] process_short [OF l])
qed

theorem short_payload_raises_witness:
  "length [0, 0, 0 :: byte] < 10
   \<and> loads example_env body_tts3_short = Some (JObj [(''uplink_message'',
         JObj (uplink_fields ''f_port'' ''f_cnt'' ''rx_metadata'' ''frm_payload'' ''AAAA''))])
   \<and> loads example_env body_cs34_short =
         Some (JObj (uplink_fields ''fPort'' ''fCnt'' ''rxInfo'' ''data'' ''AAAA''))
   \<and> b64decode example_env ''AAAA'' = Some [0, 0, 0]
   \<and> process (\<lambda>la1 lo1 la2 lo2. None) [0, 0, 0] (JInt 1) (JInt 7) (JArr []) = Inl IndexError
   \<and> parser_tts3 example_env ''v3/app/devices/dev1/up'' body_tts3_short = Inl IndexError
   \<and> parser_cs34 example_env ''application/1/device/dev1/event/up'' body_cs34_short
       = Inl IndexError"
proof -
  have l: "length [0, 0, 0 :: byte] < 10" by simp
  have t: "loads example_env body_tts3_short = Some (JObj [(''uplink_message'',
         JObj (uplink_fields ''f_port'' ''f_cnt'' ''rx_metadata'' ''frm_payload'' ''AAAA''))])"
    by code_simp
  have c: "loads example_env body_cs34_short =
         Some (JObj (uplink_fields ''fPort'' ''fCnt'' ''rxInfo'' ''data'' ''AAAA''))"
    by code_simp
  have d: "b64decode example_env ''AAAA'' = Some [0, 0, 0]" by code_simp
  note th = short_payload_raises [where data = "[0, 0, 0]" and port = "JInt 1"
      and sequence_id = "JInt 7" and gateways = "JArr []" and s = "''AAAA''"
      and E = example_env]
  have 1: "process (\<lambda>la1 lo1 la2 lo2. None) [0, 0, 0] (JInt 1) (JInt 7) (JArr []) = Inl IndexError"
    using th [THEN conjunct1] l by simp
  have 2: "parser_tts3 example_env ''v3/app/devices/dev1/up'' body_tts3_short = Inl IndexError"
    using th [where body = body_tts3_short
        and kv = "[(''uplink_message'',
          JObj (uplink_fields ''f_port'' ''f_cnt'' ''rx_metadata'' ''frm_payload'' ''AAAA''))]"
        and um = "uplink_fields ''f_port'' ''f_cnt'' ''rx_metadata'' ''frm_payload'' ''AAAA''",
        THEN conjunct2, THEN conjunct1] t d
    by (simp add: uplink_fields_def py_eq_int_def)
  have 3: "parser_cs34 example_env ''application/1/device/dev1/event/up'' body_cs34_short
       = Inl IndexError"
    using th [where body = body_cs34_short
        and kv = "uplink_fields ''fPort'' ''fCnt'' ''rxInfo'' ''data'' ''AAAA''",
        THEN conjunct2, THEN conjunct2] c d
    by (simp add: uplink_fields_def py_eq_int_def)
  from l t c d 1 2 3 show ?thesis by simp
qed

text \<open>
  Claim C3, as stated, fails: a TTS3 envelope whose \<open>uplink_message\<close> has no \<open>f_port\<close>,
  and a ChirpStack envelope on port 1 without \<open>fCnt\<close>, raise KeyError.
\<close>

theorem missing_field_counterexample:
  "parser_tts3 example_env ''v3/app/devices/dev1/up'' body_tts3_empty = Inl KeyError
   \<and> parser_cs34 example_env ''application/1/device/dev1/event/up'' body_cs34_port1
       = Inl KeyError"
  by code_simp

text \<open>
  Claim C3, amended. For both variants a body that is not valid JSON yields no downlink
  and no exception; so does a JSON object whose port (\<open>uplink_message.f_port\<close>, or
  \<open>fPort\<close>) is there and is neither 1 nor 11, a TTS3 object without \<open>uplink_message\<close>, and a
  ChirpStack object without \<open>fPort\<close>.
\<close>

theorem parsers_no_downlink:
  "(loads E body = None
      \<longrightarrow> parser_tts3 E topic body = Inr None \<and> parser_cs34 E topic body = Inr None)
   \<and> (loads E body = Some (JObj kv) \<and> map_of kv ''uplink_message'' = None
      \<longrightarrow> parser_tts3 E topic body = Inr None)
   \<and> (loads E body = Some (JObj kv) \<and> map_of kv ''uplink_message'' = Some (JObj um)
        \<and> map_of um ''f_port'' = Some port \<and> \<not> py_eq_int port 1 \<and> \<not> py_eq_int port 11
      \<longrightarrow> parser_tts3 E topic body = Inr None)
   \<and> (loads E body = Some (JObj kv) \<and> map_of kv ''fPort'' = None
      \<longrightarrow> parser_cs34 E topic body = Inr None)
   \<and> (loads E body = Some (JObj kv) \<and> map_of kv ''fPort'' = Some port
        \<and> \<not> py_eq_int port 1 \<and> \<not> py_eq_int port 11
      \<longrightarrow> parser_cs34 E topic body = Inr None)"
  by (simp add: parser_tts3_def parser_cs34_def py_eq_int_def)

theorem parsers_no_downlink_witness:
  "loads example_env ''{'' = None
   \<and> parser_tts3 example_env ''v3/app/devices/dev1/up'' ''{'' = Inr None
   \<and> parser_cs34 example_env ''application/1/device/dev1/event/up'' ''{'' = Inr None
   \<and> loads example_env ''{}'' = Some (JObj [])
   \<and> parser_tts3 example_env ''v3/app/devices/dev1/up'' ''{}'' = Inr None
   \<and> parser_cs34 example_env ''application/1/device/dev1/event/up'' ''{}'' = Inr None
   \<and> loads example_env body_tts3_port5
       = Some (JObj [(''uplink_message'', JObj [(''f_port'', JInt 5)])])
   \<and> parser_tts3 example_env ''v3/app/devices/dev1/up'' body_tts3_port5 = Inr None
   \<and> loads example_env body_cs34_port5 = Some (JObj [(''fPort'', JInt 5)])
   \<and> parser_cs34 example_env ''application/1/device/dev1/event/up'' body_cs34_port5
       = Inr None"
proof -
  have a: "loads example_env ''{'' = None" by code_simp
  have b: "loads example_env ''{}'' = Some (JObj [])" by code_simp
  have c: "loads example_env body_tts3_port5
       = Some (JObj [(''uplink_message'', JObj [(''f_port'', JInt 5)])])" by code_simp
  have d: "loads example_env body_cs34_port5 = Some (JObj [(''fPort'', JInt 5)])"
    by code_simp
  note th = parsers_no_downlink [where E = example_env]
  have 1: "parser_tts3 example_env ''v3/app/devices/dev1/up'' ''{'' = Inr None
       \<and> parser_cs34 example_env ''application/1/device/dev1/event/up'' ''{'' = Inr None"
    using th [where body = "''{''" and topic = "''v3/app/devices/dev1/up''", THEN conjunct1]
      th [where body = "''{''" and topic = "''application/1/device/dev1/event/up''",
        THEN conjunct1] a
    by simp
  have 2: "parser_tts3 example_env ''v3/app/devices/dev1/up'' ''{}'' = Inr None"
    using th [where body = "''{}''" and kv = "[]", THEN conjunct2, THEN conjunct1] b by simp
  have 3: "parser_cs34 example_env ''application/1/device/dev1/event/up'' ''{}'' = Inr None"
    using th [where body = "''{}''" and kv = "[]",
        THEN conjunct2, THEN conjunct2, THEN conjunct2, THEN conjunct1] b by simp
  have 4: "parser_tts3 example_env ''v3/app/devices/dev1/up'' body_tts3_port5 = Inr None"
    using th [where body = body_tts3_port5
        and kv = "[(''uplink_message'', JObj [(''f_port'', JInt 5)])]"
        and um = "[(''f_port'', JInt 5)]" and port = "JInt 5",
        THEN conjunct2, THEN conjunct2, THEN conjunct1] c
    by (simp add: py_eq_int_def)
  have 5: "parser_cs34 example_env ''application/1/device/dev1/event/up'' body_cs34_port5
       = Inr None"
    using th [where body = body_cs34_port5 and kv = "[(''fPort'', JInt 5)]"
        and port = "JInt 5",
        THEN conjunct2, THEN conjunct2, THEN conjunct2, THEN conjunct2] d
    by (simp add: py_eq_int_def)
  from a b c d 1 2 3 4 5 show ?thesis by simp
qed

text \<open>
  Claim C10, as stated, fails: the body \<open>5\<close> is valid JSON with no \<open>fPort\<close>, and
  \<open>'deviceInfo' in payload\<close> raises TypeError on the number before the port is looked up.
\<close>

theorem cs34_no_fport_counterexample:
  "loads example_env ''5'' = Some (JInt 5)
   \<and> parser_cs34 example_env ''application/1/device/dev1/event/up'' ''5'' = Inl OperandError"
  by code_simp

text \<open>
  Claim C10, amended. For every body that is a JSON object with no \<open>fPort\<close> key,
  \<open>parser_cs34\<close> takes port 0, which is neither 1 nor 11, and returns no downlink without
  raising.
\<close>

theorem cs34_no_fport:
  assumes "loads E body = Some (JObj kv)" and "map_of kv ''fPort'' = None"
  shows "py_get (JObj kv) ''fPort'' (JInt 0) = Inr (JInt 0)
     \<and> \<not> py_eq_int (JInt 0) 1 \<and> \<not> py_eq_int (JInt 0) 11
     \<and> parser_cs34 E topic body = Inr None"
  using assms by (simp add: parser_cs34_def py_eq_int_def)

theorem cs34_no_fport_witness:
  "loads example_env ''{}'' = Some (JObj []) \<and> map_of ([] :: (string \<times> json) list) ''fPort'' = None
   \<and> parser_cs34 example_env ''application/1/device/dev1/event/up'' ''{}'' = Inr None"
proof -
  have a: "loads example_env ''{}'' = Some (JObj [])" by code_simp
  have b: "map_of ([] :: (string \<times> json) list) ''fPort'' = None" by simp
  from a b cs34_no_fport [OF a b] show ?thesis by simp
qed

text \<open>
  Claim C8, as stated, fails: \<open>str.replace\<close> rewrites every \<open>/up\<close>, not the trailing one
  alone. For a device named \<open>upper\<close> the TTS3 topic comes out as
  \<open>v3/app/devices/down/replaceper/down/replace\<close>.
\<close>

theorem topic_replace_counterexample:
  "parser_tts3 example_env ''v3/app/devices/upper/up'' body_tts3_ok
     = Inr (Some (''v3/app/devices/down/replaceper/down/replace'', downlink_tts3_text))
   \<and> ''v3/app/devices/down/replaceper/down/replace'' \<noteq> ''v3/app/devices/upper/down/replace''"
  by code_simp

text \<open>
  Claim C8, amended. Whenever a parser returns a downlink, the TTS3 topic is the inbound
  topic with every occurrence of \<open>/up\<close> replaced by \<open>/down/replace\<close>, and the ChirpStack
  topic the inbound topic with every occurrence of \<open>/event/up\<close> replaced by
  \<open>/command/down\<close>: a string without the pattern is unchanged, and the text up to and
  including the first occurrence is rewritten to the prefix and the replacement, the rest
  being treated the same way. \<open>application/123/device/ABC/event/up\<close> maps to
  \<open>application/123/device/ABC/command/down\<close>.
\<close>

theorem topic_replace_all:
  "(parser_tts3 E topic body = Inr (Some (t, b))
      \<longrightarrow> t = py_replace ''/up'' ''/down/replace'' topic)
   \<and> (parser_cs34 E topic body = Inr (Some (t, b))
      \<longrightarrow> t = py_replace ''/event/up'' ''/command/down'' topic)
   \<and> (\<not> sublist old s \<longrightarrow> py_replace old new s = s)
   \<and> (old \<noteq> [] \<and> \<not> sublist old (pre @ butlast old)
      \<longrightarrow> py_replace old new (pre @ old @ post) = pre @ new @ py_replace old new post)
   \<and> py_replace ''/event/up'' ''/command/down'' ''application/123/device/ABC/event/up''
       = ''application/123/device/ABC/command/down''"
proof (intro conjI impI; (elim conjE)?)
  assume "parser_tts3 E topic body = Inr (Some (t, b))"
  then show "t = py_replace ''/up'' ''/down/replace'' topic" by (rule parser_tts3_topic)
next
  assume "parser_cs34 E topic body = Inr (Some (t, b))"
  then show "t = py_replace ''/event/up'' ''/command/down'' topic"
    by (rule parser_cs34_topic)
next
  assume "\<not> sublist old s"
  then show "py_replace old new s = s" by (rule py_replace_absent)
next
  assume "old \<noteq> []" and "\<not> sublist old (pre @ butlast old)"
  then show "py_replace old new (pre @ old @ post) = pre @ new @ py_replace old new post"
    by (rule py_replace_first)
next
  show "py_replace ''/event/up'' ''/command/down'' ''application/123/device/ABC/event/up''
       = ''application/123/device/ABC/command/down''"
    by code_simp
qed

theorem topic_replace_all_witness:
  "parser_tts3 example_env ''v3/app/devices/dev1/up'' body_tts3_ok
     = Inr (Some (''v3/app/devices/dev1/down/replace'', downlink_tts3_text))
   \<and> ''v3/app/devices/dev1/down/replace''
       = py_replace ''/up'' ''/down/replace'' ''v3/app/devices/dev1/up''
   \<and> parser_cs34 example_env ''application/123/device/ABC/event/up'' body_cs34_ok
     = Inr (Some (''application/123/device/ABC/command/down'', downlink_cs34_text))
   \<and> ''application/123/device/ABC/command/down''
       = py_replace ''/event/up'' ''/command/down'' ''application/123/device/ABC/event/up''
   \<and> \<not> sublist ''/up'' ''v3/app/devices/dev1/down''
   \<and> py_replace ''/up'' ''/down/replace'' ''v3/app/devices/dev1/down''
       = ''v3/app/devices/dev1/down''
   \<and> \<not> sublist ''/up'' (''v3/app/devices/dev1'' @ butlast ''/up'')
   \<and> py_replace ''/up'' ''/down/replace'' (''v3/app/devices/dev1'' @ ''/up'' @ ''/up'')
       = ''v3/app/devices/dev1'' @ ''/down/replace''
         @ py_replace ''/up'' ''/down/replace'' ''/up''"
proof -
  have a: "parser_tts3 example_env ''v3/app/devices/dev1/up'' body_tts3_ok
     = Inr (Some (''v3/app/devices/dev1/down/replace'', downlink_tts3_text))" by code_simp
  have b: "parser_cs34 example_env ''application/123/device/ABC/event/up'' body_cs34_ok
     = Inr (Some (''application/123/device/ABC/command/down'', downlink_cs34_text))"
    by code_simp
  have c: "\<not> sublist ''/up'' ''v3/app/devices/dev1/down''" by code_simp
  have d: "\<not> sublist ''/up'' (''v3/app/devices/dev1'' @ butlast ''/up'')" by code_simp
  have e: "''/up'' \<noteq> []" by simp
  note 1 = topic_replace_all [THEN conjunct1, rule_format, OF a]
  note 2 = topic_replace_all [THEN conjunct2, THEN conjunct1, rule_format, OF b]
  note 3 = topic_replace_all [THEN conjunct2, THEN conjunct2, THEN conjunct1, rule_format, OF c]
  note 4 = topic_replace_all [THEN conjunct2, THEN conjunct2, THEN conjunct2, THEN conjunct1,
      rule_format, OF conjI [OF e d], of "''/down/replace''" "''/up''"]
  from a 1 b 2 c 3 d 4 show ?thesis by (intro conjI)
qed

end
